theory Spec2Isabelle
  imports Complex_Main
begin

section \<open>JavaScript values\<close>

text \<open>
  A JavaScript number is an IEEE double. \<open>Fin q\<close> is the finite number of value \<open>q\<close>
  (the two zeros are one value: both are falsy and compare equal), \<open>NaN\<close>, \<open>PosInf\<close>
  and \<open>NegInf\<close> are the three special values. The code only compares numbers with the
  constants 1, 0, .01 and 9999; no double lies between 1/100 and the double written
  \<open>.01\<close>, so comparing with the rational constant gives the same answer.
\<close>

datatype number = NaN | NegInf | Fin rat | PosInf

text \<open>The operator \<open><\<close> on two numbers: every comparison with NaN is false.\<close>

fun num_less :: "number \<Rightarrow> number \<Rightarrow> bool" where
  "num_less NaN _ = False"
| "num_less _ NaN = False"
| "num_less NegInf NegInf = False"
| "num_less NegInf _ = True"
| "num_less (Fin a) (Fin b) = (a < b)"
| "num_less (Fin a) PosInf = True"
| "num_less (Fin a) NegInf = False"
| "num_less PosInf _ = False"

text \<open>
  The values an argument can be. \<open>Object\<close> stands for every non-primitive value
  (object, array, function): truthy, and neither number-typed nor string-typed.
\<close>

datatype jsval = Undefined | Null | Boolean bool | Number number | String string | Object

text \<open>\<open>!v\<close> is \<open>\<not> truthy v\<close>: undefined, null, false, 0, NaN and the empty string are falsy.\<close>

fun truthy :: "jsval \<Rightarrow> bool" where
  "truthy Undefined = False"
| "truthy Null = False"
| "truthy (Boolean b) = b"
| "truthy (Number n) = (n \<noteq> NaN \<and> n \<noteq> Fin 0)"
| "truthy (String s) = (s \<noteq> [])"
| "truthy Object = True"

definition nullish :: "jsval \<Rightarrow> bool" where
  "nullish v = (v = Undefined \<or> v = Null)"

text \<open>A default parameter \<open>x = d\<close>: the default replaces an omitted (undefined) argument.\<close>

definition dflt :: "jsval \<Rightarrow> jsval \<Rightarrow> jsval" where
  "dflt d v = (if v = Undefined then d else v)"

text \<open>The operator \<open>a ?? b\<close>.\<close>

definition coalesce :: "jsval \<Rightarrow> jsval \<Rightarrow> jsval" where
  "coalesce a b = (if nullish a then b else a)"

section \<open>The error classes (errors.js)\<close>

text \<open>
  The seven classes of errors.js, and three failures that do not come from it:
  \<open>TypeError\<close> is what \<open>new errors.X()\<close> raises when \<open>errors.X\<close> is undefined,
  \<open>ValidationError\<close> is mongoose's rejection of a document with a failed cast, and
  \<open>DuplicateKeyError\<close> is the store's rejection of an insert that breaks the unique
  index on \<open>id\<close>.
\<close>

datatype error =
    ProductIdExistsError
  | ProductIdNotExistsError
  | IdNotDefinedError
  | InvalidIdError
  | InvalidProductNameError
  | InvalidPriceError
  | InvalidStockError
  | TypeError
  | ValidationError
  | DuplicateKeyError

text \<open>\<open>module.exports\<close> of errors.js, entry by entry (the last two are the same class).\<close>

definition errors :: "error list" where
  "errors =
    [ProductIdExistsError,
     ProductIdNotExistsError,
     IdNotDefinedError,
     InvalidIdError,
     InvalidProductNameError,
     InvalidPriceError,
     InvalidPriceError]"

text \<open>
  \<open>throw new errors.X()\<close>: the class when the module exports it, a TypeError
  (\<open>errors.X is not a constructor\<close>) when it does not.
\<close>

definition throw_new :: "error \<Rightarrow> error + 'a" where
  "throw_new k = Inl (if k \<in> set errors then k else TypeError)"

text \<open>Statements in sequence inside one \<open>try\<close>: the first failure ends the block.\<close>

fun seq :: "error + unit \<Rightarrow> error + 'a \<Rightarrow> error + 'a" where
  "seq (Inl e) _ = Inl e"
| "seq (Inr _) k = k"

section \<open>The validators that need no store\<close>

text \<open>The character class \<open>[A-Za-z0-9- ]\<close>.\<close>

definition name_class :: "char \<Rightarrow> bool" where
  "name_class c =
    (let n = (of_char c :: nat) in
       (65 \<le> n \<and> n \<le> 90) \<or> (97 \<le> n \<and> n \<le> 122) \<or> (48 \<le> n \<and> n \<le> 57)
       \<or> c = CHR ''-'' \<or> c = CHR '' '')"

text \<open>
  The pattern \<open>/[A-Za-z0-9- ]{3, 24}/\<close>. Because of the space after the comma,
  \<open>{3, 24}\<close> is not a quantifier: JavaScript reads the seven characters literally, so
  the pattern is one character of the class followed by the text \<open>{3, 24}\<close>.
  \<open>match_here\<close> is a match at the start of the string, \<open>regex_match\<close> a match at some
  position (the pattern has no anchors), which is when \<open>String.match\<close> is not null.
\<close>

definition match_here :: "string \<Rightarrow> bool" where
  "match_here s = (case s of [] \<Rightarrow> False | c # rest \<Rightarrow> name_class c \<and> take 7 rest = ''{3, 24}'')"

fun regex_match :: "string \<Rightarrow> bool" where
  "regex_match [] = False"
| "regex_match (c # cs) = (match_here (c # cs) \<or> regex_match cs)"

definition validateProductName :: "jsval \<Rightarrow> error + unit" where
  "validateProductName productName =
    (case productName of
       String s \<Rightarrow> if \<not> regex_match s then throw_new InvalidProductNameError else Inr ()
     | _ \<Rightarrow> throw_new InvalidProductNameError)"

definition validatePrice :: "jsval \<Rightarrow> error + unit" where
  "validatePrice price =
    (case price of
       Number n \<Rightarrow>
         if num_less n (Fin (1 / 100)) \<or> num_less (Fin 9999) n
         then throw_new InvalidPriceError else Inr ()
     | _ \<Rightarrow> throw_new InvalidPriceError)"

definition validateStock :: "jsval \<Rightarrow> error + unit" where
  "validateStock stock =
    (case stock of
       Number n \<Rightarrow>
         if num_less n (Fin 0) \<or> num_less (Fin 9999) n
         then throw_new InvalidStockError else Inr ()
     | _ \<Rightarrow> throw_new InvalidStockError)"

text \<open>The rule of the specification for a product name, for comparison.\<close>

definition spec_valid_name :: "string \<Rightarrow> bool" where
  "spec_valid_name s = (3 \<le> length s \<and> length s \<le> 24 \<and> list_all name_class s)"

section \<open>The store: the mongoose model \<open>Product\<close>\<close>

text \<open>
  \<open>productSchema\<close> declares four paths: \<open>id\<close> (Number, unique), \<open>product\<close>
  (String), \<open>price\<close> and \<open>stock\<close> (Number). The schema is built without options, so it
  is strict: a stored document holds these four paths and nothing else. A Number path
  holds a number, null, or no value.
\<close>

datatype numval = NoValue | NullValue | NumValue number

record product_doc =
  doc_id :: numval
  doc_product :: "string option"
  doc_price :: numval
  doc_stock :: numval

type_synonym collection = "product_doc list"

text \<open>Reading a Number path of a document gives a JavaScript value.\<close>

fun js_of :: "numval \<Rightarrow> jsval" where
  "js_of NoValue = Undefined"
| "js_of NullValue = Null"
| "js_of (NumValue n) = Number n"

text \<open>
  The cast mongoose applies when a value is assigned to a Number path: undefined and
  null are kept, the empty string becomes null, a boolean becomes 0 or 1, a number is
  kept unless it is NaN, and NaN is a cast error (\<open>None\<close>). Non-empty strings and
  objects are truthy and not number-typed, so in this program a validator always stops
  them before an assignment; the model gives them a cast error.
\<close>

fun castNumber :: "jsval \<Rightarrow> numval option" where
  "castNumber Undefined = Some NoValue"
| "castNumber Null = Some NullValue"
| "castNumber (String s) = (if s = [] then Some NullValue else None)"
| "castNumber (Boolean b) = Some (NumValue (Fin (if b then 1 else 0)))"
| "castNumber (Number n) = (if n = NaN then None else Some (NumValue n))"
| "castNumber Object = None"

text \<open>
  \<open>ProductModel.find({id}).exec()\<close>: the stored documents whose \<open>id\<close> is the given
  number, in insertion order. The program only sends the query for an id that passed
  \<open>validateId\<close>, which is a number.
\<close>

definition find_id :: "jsval \<Rightarrow> collection \<Rightarrow> product_doc list" where
  "find_id i st = (case i of Number n \<Rightarrow> filter (\<lambda>d. doc_id d = NumValue n) st | _ \<Rightarrow> [])"

text \<open>\<open>xs[0]\<close>: the first element, or undefined (\<open>None\<close>) for the empty array.\<close>

definition elem0 :: "'a list \<Rightarrow> 'a option" where
  "elem0 xs = (case xs of [] \<Rightarrow> None | x # _ \<Rightarrow> Some x)"

text \<open>
  A mongoose document in memory: the values of the schema paths, the plain property
  \<open>productName\<close> that the update functions assign on the object (it is not a schema
  path, so \<open>save\<close> never writes it), and whether an assignment to a path failed its cast.
\<close>

record mdoc =
  paths :: product_doc
  productName_own :: jsval
  castError :: bool

text \<open>A document as \<open>find\<close> returns it.\<close>

definition hydrate :: "product_doc \<Rightarrow> mdoc" where
  "hydrate d = \<lparr>paths = d, productName_own = Undefined, castError = False\<rparr>"

text \<open>
  \<open>doc.path = v\<close> for a Number path: the cast value is stored, or the cast error is
  kept on the document.
\<close>

definition assign ::
  "((numval \<Rightarrow> numval) \<Rightarrow> product_doc \<Rightarrow> product_doc) \<Rightarrow> jsval \<Rightarrow> mdoc \<Rightarrow> mdoc" where
  "assign upd v d =
    (case castNumber v of
       Some c \<Rightarrow> d\<lparr>paths := upd (\<lambda>_. c) (paths d)\<rparr>
     | None \<Rightarrow> d\<lparr>castError := True\<rparr>)"

text \<open>
  \<open>new ProductModel({id, productName, price, stock})\<close>: the three keys that are schema
  paths are assigned; \<open>productName\<close> is not a path of the strict schema and is dropped.
\<close>

definition ProductModel :: "jsval \<Rightarrow> jsval \<Rightarrow> jsval \<Rightarrow> jsval \<Rightarrow> mdoc" where
  "ProductModel i productName price stock =
    assign doc_stock_update stock
      (assign doc_price_update price
        (assign doc_id_update i
          \<lparr>paths = \<lparr>doc_id = NoValue, doc_product = None, doc_price = NoValue, doc_stock = NoValue\<rparr>,
           productName_own = Undefined, castError = False\<rparr>))"

text \<open>
  \<open>save()\<close> of a new document: a cast error rejects it, a document with the same id
  breaks the unique index, otherwise the document is inserted.
\<close>

definition save_new :: "mdoc \<Rightarrow> collection \<Rightarrow> error + collection" where
  "save_new d st =
    (if castError d then Inl ValidationError
     else if filter (\<lambda>x. doc_id x = doc_id (paths d)) st \<noteq> [] then Inl DuplicateKeyError
     else Inr (st @ [paths d]))"

text \<open>
  \<open>save()\<close> of a document that \<open>find({id})[0]\<close> returned: the stored document it was
  loaded from, the first with that id, takes the new path values.
\<close>

fun replace_first :: "numval \<Rightarrow> product_doc \<Rightarrow> collection \<Rightarrow> collection" where
  "replace_first k d [] = []"
| "replace_first k d (x # xs) = (if doc_id x = k then d # xs else x # replace_first k d xs)"

definition save_existing :: "mdoc \<Rightarrow> collection \<Rightarrow> error + collection" where
  "save_existing d st =
    (if castError d then Inl ValidationError
     else Inr (replace_first (doc_id (paths d)) (paths d) st))"

text \<open>\<open>await Product.save(); return Product\<close>, with the store before and after.\<close>

definition save_and_return ::
  "(mdoc \<Rightarrow> collection \<Rightarrow> error + collection) \<Rightarrow> mdoc \<Rightarrow> collection
     \<Rightarrow> (error + mdoc) \<times> collection" where
  "save_and_return save Product st =
    (case save Product st of Inl e \<Rightarrow> (Inl e, st) | Inr st' \<Rightarrow> (Inr Product, st'))"

section \<open>The class DB\<close>

text \<open>
  Every function takes the store and, when it can write, returns the store with its
  result. A call that throws returns \<open>Inl\<close> of the error and the store as it is then.
  Each function here is one call running alone. \<open>addProducts\<close> and \<open>updateProducts\<close>
  start all their calls at once with \<open>Promise.all\<close>; what they do depends on the order
  in which the store answers the requests of the calls, and they are not modelled.
\<close>

definition validateId :: "jsval \<Rightarrow> bool \<Rightarrow> collection \<Rightarrow> error + unit" where
  "validateId i mutation st =
    (if \<not> truthy i then throw_new IdNotDefinedError
     else if (case i of Number n \<Rightarrow> num_less n (Fin 1) | _ \<Rightarrow> True) then throw_new InvalidIdError
     else if \<not> mutation \<and> elem0 (find_id i st) \<noteq> None then throw_new ProductIdExistsError
     else Inr ())"

definition getProduct :: "jsval \<Rightarrow> collection \<Rightarrow> error + mdoc option" where
  "getProduct i st =
    (case validateId i False st of
       Inl e \<Rightarrow> Inl e
     | Inr _ \<Rightarrow> Inr (map_option hydrate (elem0 (find_id i st))))"

definition addProduct ::
  "jsval \<Rightarrow> jsval \<Rightarrow> jsval \<Rightarrow> jsval \<Rightarrow> collection \<Rightarrow> (error + mdoc) \<times> collection" where
  "addProduct i productName0 price0 stock0 st =
    (let productName = dflt (String []) productName0;
         price = dflt (Number (Fin 0)) price0;
         stock = dflt (Number (Fin 0)) stock0
     in case seq (validateId i False st)
            (seq (validateProductName productName)
            (seq (validatePrice price)
                 (validateStock stock))) of
          Inl e \<Rightarrow> (Inl e, st)
        | Inr _ \<Rightarrow> save_and_return save_new (ProductModel i productName price stock) st)"

definition updateProductName :: "jsval \<Rightarrow> jsval \<Rightarrow> collection \<Rightarrow> (error + mdoc) \<times> collection" where
  "updateProductName i productName0 st =
    (let productName = dflt (String []) productName0
     in case seq (validateId i True st) (validateProductName productName) of
          Inl e \<Rightarrow> (Inl e, st)
        | Inr _ \<Rightarrow>
            (case elem0 (find_id i st) of
               None \<Rightarrow> (throw_new ProductIdNotExistsError, st)
             | Some d \<Rightarrow>
                 save_and_return save_existing ((hydrate d)\<lparr>productName_own := productName\<rparr>) st))"

definition updateProductPrice :: "jsval \<Rightarrow> jsval \<Rightarrow> collection \<Rightarrow> (error + mdoc) \<times> collection" where
  "updateProductPrice i price0 st =
    (let price = dflt (Number (Fin 0)) price0
     in case seq (validateId i True st) (validatePrice price) of
          Inl e \<Rightarrow> (Inl e, st)
        | Inr _ \<Rightarrow>
            (case elem0 (find_id i st) of
               None \<Rightarrow> (throw_new ProductIdNotExistsError, st)
             | Some d \<Rightarrow>
                 save_and_return save_existing (assign doc_price_update price (hydrate d)) st))"

definition updateProductStock :: "jsval \<Rightarrow> jsval \<Rightarrow> collection \<Rightarrow> (error + mdoc) \<times> collection" where
  "updateProductStock i stock0 st =
    (let stock = dflt (Number (Fin 0)) stock0
     in case seq (validateId i True st) (validateStock stock) of
          Inl e \<Rightarrow> (Inl e, st)
        | Inr _ \<Rightarrow>
            (case elem0 (find_id i st) of
               None \<Rightarrow> (throw_new ProductIdNotExistsError, st)
             | Some d \<Rightarrow>
                 save_and_return save_existing (assign doc_stock_update stock (hydrate d)) st))"

text \<open>
  \<open>x && this.validate(x)\<close> validates a truthy argument only; \<open>x ?? Product.x\<close> keeps
  the document's value for a null or undefined argument only.
\<close>

definition updateProduct ::
  "jsval \<Rightarrow> jsval \<Rightarrow> jsval \<Rightarrow> jsval \<Rightarrow> collection \<Rightarrow> (error + mdoc) \<times> collection" where
  "updateProduct i productName0 price0 stock0 st =
    (let productName = dflt Null productName0;
         price = dflt Null price0;
         stock = dflt Null stock0
     in case seq (validateId i True st)
            (seq (if truthy productName then validateProductName productName else Inr ())
            (seq (if truthy price then validatePrice price else Inr ())
                 (if truthy stock then validateStock stock else Inr ()))) of
          Inl e \<Rightarrow> (Inl e, st)
        | Inr _ \<Rightarrow>
            (case elem0 (find_id i st) of
               None \<Rightarrow> (throw_new ProductIdNotExistsError, st)
             | Some d \<Rightarrow>
                 (let P0 = hydrate d;
                      P1 = P0\<lparr>productName_own := coalesce productName (productName_own P0)\<rparr>;
                      P2 = assign doc_price_update (coalesce price (js_of (doc_price (paths P1)))) P1;
                      P3 = assign doc_stock_update (coalesce stock (js_of (doc_stock (paths P2)))) P2
                  in save_and_return save_existing P3 st)))"

section \<open>Predicates used in the statements\<close>

text \<open>
  The ids that get past the first two checks of \<open>validateId\<close>: truthy, number-typed and
  not below 1. These are the finite numbers from 1 up, integer or not, and Infinity.
\<close>

definition valid_id :: "jsval \<Rightarrow> bool" where
  "valid_id i = (i = Number PosInf \<or> (\<exists>q. i = Number (Fin q) \<and> 1 \<le> q))"






section \<open>Thrown errors and validators\<close>

lemma throw_new_simps:
  "throw_new ProductIdExistsError = Inl ProductIdExistsError"
  "throw_new ProductIdNotExistsError = Inl ProductIdNotExistsError"
  "throw_new IdNotDefinedError = Inl IdNotDefinedError"
  "throw_new InvalidIdError = Inl InvalidIdError"
  "throw_new InvalidProductNameError = Inl InvalidProductNameError"
  "throw_new InvalidPriceError = Inl InvalidPriceError"
  "throw_new InvalidStockError = Inl TypeError"
  by (simp_all add: throw_new_def errors_def)

lemma seq_Inr_iff: "(seq a b = Inr x) = (a = Inr () \<and> b = Inr x)"
  by (cases a) simp_all

lemma elem0_None_iff: "(elem0 xs = None) = (xs = [])"
  by (cases xs) (simp_all add: elem0_def)

lemma find_id_Number: "find_id (Number n) st = filter (\<lambda>d. doc_id d = NumValue n) st"
  by (simp add: find_id_def)

lemma validatePrice_Inr_iff:
  "(validatePrice v = Inr ()) =
     (v = Number NaN \<or> (\<exists>q. v = Number (Fin q) \<and> 1 / 100 \<le> q \<and> q \<le> 9999))"
proof (cases v)
  case (Number n)
  then show ?thesis
    by (cases n) (auto simp: validatePrice_def throw_new_simps)
qed (simp_all add: validatePrice_def throw_new_simps)

lemma validateStock_Inr_iff:
  "(validateStock v = Inr ()) =
     (v = Number NaN \<or> (\<exists>q. v = Number (Fin q) \<and> 0 \<le> q \<and> q \<le> 9999))"
proof (cases v)
  case (Number n)
  then show ?thesis
    by (cases n) (auto simp: validateStock_def throw_new_simps)
qed (simp_all add: validateStock_def throw_new_simps)

text \<open>
  errors.js does not export \<open>InvalidStockError\<close> (its export list names
  \<open>InvalidPriceError\<close> twice), so every failure of \<open>validateStock\<close> is the TypeError of
  \<open>new undefined()\<close>.
\<close>

lemma validateStock_Inl: "validateStock v = Inl e \<Longrightarrow> e = TypeError"
  by (auto simp: validateStock_def throw_new_simps split: jsval.splits if_splits)

lemma id_check:
  "(truthy i \<and> \<not> (case i of Number n \<Rightarrow> num_less n (Fin 1) | _ \<Rightarrow> True)) = valid_id i"
proof (cases i)
  case (Number n)
  then show ?thesis by (cases n) (auto simp: valid_id_def)
qed (simp_all add: valid_id_def)

lemma validateId_eq:
  "validateId i m st =
    (if \<not> truthy i then Inl IdNotDefinedError
     else if \<not> valid_id i then Inl InvalidIdError
     else if \<not> m \<and> find_id i st \<noteq> [] then Inl ProductIdExistsError
     else Inr ())"
  using id_check [of i] by (auto simp: validateId_def throw_new_simps elem0_None_iff)

lemma validateId_Inr_iff:
  "(validateId i m st = Inr ()) = (valid_id i \<and> (m \<or> find_id i st = []))"
  using id_check [of i] by (auto simp: validateId_eq)

lemma valid_id_cast:
  "valid_id i \<Longrightarrow> \<exists>n. i = Number n \<and> n \<noteq> NaN \<and> castNumber i = Some (NumValue n)"
  by (auto simp: valid_id_def)

text \<open>
  C5. The claim: validateStock fails, with InvalidStockError, exactly when stock is not
  an integer in [0, 9999], so 1.5 fails. The code has no integer check: 1.5 passes.
\<close>

theorem validateStock_accepts_one_and_a_half:
  "validateStock (Number (Fin (3 / 2))) = Inr ()
   \<and> validateStock (Number (Fin (3 / 2))) \<noteq> Inl InvalidStockError"
  by (simp add: validateStock_def)

text \<open>
  C5, as amended: validateStock accepts NaN and every number from 0 to 9999, integer or
  not, and fails on every other value.
\<close>

theorem validateStock_fails_iff:
  "(\<exists>e. validateStock v = Inl e) =
     (\<not> (v = Number NaN \<or> (\<exists>q. v = Number (Fin q) \<and> 0 \<le> q \<and> q \<le> 9999)))"
proof -
  have "(\<exists>e. validateStock v = Inl e) = (validateStock v \<noteq> Inr ())"
    by (cases "validateStock v") auto
  then show ?thesis by (simp only: validateStock_Inr_iff)
qed

text \<open>
  C6. The claim: a number that is not an integer, such as 1.5, fails with
  InvalidIdError. The code tests \<open>typeof id !== 'number' || id < 1\<close> only: 1.5 passes.
\<close>

theorem validateId_accepts_one_and_a_half:
  "validateId (Number (Fin (3 / 2))) True [] = Inr ()
   \<and> validateId (Number (Fin (3 / 2))) False [] = Inr ()"
  by (simp add: validateId_def find_id_def elem0_def)

text \<open>
  C6, as amended: validateId raises IdNotDefinedError exactly for a falsy id;
  InvalidIdError exactly for a truthy id that is not a number or is a number below 1
  (a number from 1 up passes whether or not it is an integer); and
  ProductIdExistsError exactly when the call is not a mutation, the id passed the two
  checks before, and the store has a document with that id.
\<close>

theorem validateId_error_iff:
  "((validateId i m st = Inl IdNotDefinedError) = (\<not> truthy i))
   \<and> ((validateId i m st = Inl InvalidIdError) = (truthy i \<and> \<not> valid_id i))
   \<and> ((validateId i m st = Inl ProductIdExistsError) = (\<not> m \<and> valid_id i \<and> find_id i st \<noteq> []))
   \<and> ((validateId i m st = Inr ()) = (valid_id i \<and> (m \<or> find_id i st = [])))"
proof -
  have "valid_id i \<Longrightarrow> truthy i" by (auto simp: valid_id_def)
  then show ?thesis by (auto simp: validateId_eq)
qed

section \<open>Product names\<close>

lemma brace_not_in_class: "\<not> name_class (CHR ''{'')"
  by (simp add: name_class_def)

lemma regex_match_needs_brace: "regex_match s \<Longrightarrow> CHR ''{'' \<in> set s"
proof (induction s)
  case Nil
  then show ?case by simp
next
  case (Cons c cs)
  show ?case
  proof (cases "match_here (c # cs)")
    case True
    then have "take 7 cs = ''{3, 24}''" by (simp add: match_here_def)
    then have "CHR ''{'' \<in> set (take 7 cs)" by simp
    then show ?thesis using in_set_takeD by fastforce
  next
    case False
    with Cons show ?thesis by simp
  qed
qed

text \<open>
  C2. The claim: validateProductName raises nothing for a string of 3 to 24 letters,
  digits, hyphens and spaces, such as "cheese". The code rejects every one of them:
  a name that passes must contain the text \<open>{3, 24}\<close>, and a brace is outside the class.
\<close>

theorem validateProductName_rejects_spec_names:
  "spec_valid_name s \<Longrightarrow> validateProductName (String s) = Inl InvalidProductNameError"
proof -
  assume v: "spec_valid_name s"
  have "CHR ''{'' \<notin> set s"
  proof
    assume "CHR ''{'' \<in> set s"
    with v have "name_class (CHR ''{'')"
      by (simp add: spec_valid_name_def list_all_iff)
    with brace_not_in_class show False by simp
  qed
  with regex_match_needs_brace have "\<not> regex_match s" by blast
  then show ?thesis
    by (simp add: validateProductName_def throw_new_def errors_def)
qed

theorem validateProductName_rejects_cheese:
  "spec_valid_name ''cheese''
   \<and> validateProductName (String ''cheese'') = Inl InvalidProductNameError"
proof -
  have v: "spec_valid_name ''cheese''"
    by (simp add: spec_valid_name_def name_class_def)
  show ?thesis using v validateProductName_rejects_spec_names [OF v] by simp
qed

section \<open>Adding a product\<close>

lemma addProduct_validation:
  assumes "addProduct i name price stock st = (Inr P, st')"
  shows "validateId i False st = Inr ()"
    and "validateProductName (dflt (String []) name) = Inr ()"
    and "validatePrice (dflt (Number (Fin 0)) price) = Inr ()"
    and "validateStock (dflt (Number (Fin 0)) stock) = Inr ()"
    and "save_new (ProductModel i (dflt (String []) name) (dflt (Number (Fin 0)) price)
           (dflt (Number (Fin 0)) stock)) st = Inr st'"
    and "P = ProductModel i (dflt (String []) name) (dflt (Number (Fin 0)) price)
           (dflt (Number (Fin 0)) stock)"
  using assms
  by (auto simp: addProduct_def Let_def save_and_return_def seq_Inr_iff split: sum.splits)

lemma addProduct_success:
  assumes "addProduct i name price stock st = (Inr P, st')"
  shows "\<exists>ni np ns. i = Number ni \<and> dflt (Number (Fin 0)) price = Number np
            \<and> dflt (Number (Fin 0)) stock = Number ns
            \<and> ni \<noteq> NaN \<and> np \<noteq> NaN \<and> ns \<noteq> NaN
            \<and> P = \<lparr>paths = \<lparr>doc_id = NumValue ni, doc_product = None,
                             doc_price = NumValue np, doc_stock = NumValue ns\<rparr>,
                   productName_own = Undefined, castError = False\<rparr>
            \<and> filter (\<lambda>d. doc_id d = NumValue ni) st = []
            \<and> st' = st @ [paths P]"
proof -
  let ?p = "dflt (Number (Fin 0)) price" and ?s = "dflt (Number (Fin 0)) stock"
  note v = addProduct_validation [OF assms]
  from v(1) have "valid_id i" and nf: "find_id i st = []"
    by (simp_all add: validateId_Inr_iff)
  then obtain ni where i: "i = Number ni" "ni \<noteq> NaN"
    using valid_id_cast by blast
  from v(3) obtain np where p: "?p = Number np"
    by (auto simp: validatePrice_Inr_iff)
  from v(4) obtain ns where s: "?s = Number ns"
    by (auto simp: validateStock_Inr_iff)
  from v(5) have ok: "\<not> castError P" and st': "st' = st @ [paths P]"
    unfolding v(6) [symmetric] by (auto simp: save_new_def split: if_splits)
  from ok have nn: "np \<noteq> NaN \<and> ns \<noteq> NaN"
    unfolding v(6) using i p s
    by (auto simp: ProductModel_def assign_def split: if_splits)
  then have "P = \<lparr>paths = \<lparr>doc_id = NumValue ni, doc_product = None,
                             doc_price = NumValue np, doc_stock = NumValue ns\<rparr>,
                   productName_own = Undefined, castError = False\<rparr>"
    unfolding v(6) using i p s by (simp add: ProductModel_def assign_def)
  with i p s nn nf st' show ?thesis
    by (simp add: find_id_Number)
qed

lemma pizza_no_match: "\<not> regex_match ''pizza''"
  using regex_match_needs_brace [of "''pizza''"] by auto

text \<open>
  C1. The claim: for an id from 1 up that is not in the store,
  addProduct(id, "pizza", 5.99, 55) succeeds, getProduct(id) then returns the product,
  and getProduct fails on a bad id only. In the code the name "pizza" fails
  validateProductName, so the call throws and stores nothing; and getProduct calls
  validateId without the mutation flag, so it throws ProductIdExistsError for every id
  that is in the store, in particular right after any addProduct that succeeded, and
  returns undefined for every id that is not.
\<close>

theorem addProduct_pizza_then_getProduct:
  assumes "valid_id i"
  shows "(find_id i st = [] \<longrightarrow>
            addProduct i (String ''pizza'') (Number (Fin (599 / 100))) (Number (Fin 55)) st
              = (Inl InvalidProductNameError, st))
       \<and> (addProduct i name price stock st = (Inr P, st') \<longrightarrow>
            getProduct i st' = Inl ProductIdExistsError)
       \<and> (find_id i st = [] \<longrightarrow> getProduct i st = Inr None)"
proof -
  have t: "truthy i" using assms by (auto simp: valid_id_def)
  have a: "find_id i st = [] \<Longrightarrow>
      addProduct i (String ''pizza'') (Number (Fin (599 / 100))) (Number (Fin 55)) st
        = (Inl InvalidProductNameError, st)"
    using assms t pizza_no_match
    by (simp add: addProduct_def Let_def dflt_def validateId_eq validateProductName_def
          throw_new_simps)
  have b: "getProduct i st' = Inl ProductIdExistsError"
    if "addProduct i name price stock st = (Inr P, st')"
  proof -
    from addProduct_success [OF that] obtain ni where
      "i = Number ni" "doc_id (paths P) = NumValue ni" "st' = st @ [paths P]"
      by auto
    then have "find_id i st' \<noteq> []" by (simp add: find_id_Number)
    with assms t show ?thesis by (simp add: getProduct_def validateId_eq)
  qed
  have c: "find_id i st = [] \<Longrightarrow> getProduct i st = Inr None"
    using assms t by (simp add: getProduct_def validateId_eq elem0_def)
  from a b c show ?thesis by blast
qed

theorem addProduct_pizza_then_getProduct_witness:
  "valid_id (Number (Fin 1))
   \<and> addProduct (Number (Fin 1)) (String ''pizza'') (Number (Fin (599 / 100))) (Number (Fin 55)) []
       = (Inl InvalidProductNameError, [])
   \<and> getProduct (Number (Fin 1))
       (snd (addProduct (Number (Fin 1)) (String ''a{3, 24}'') (Number (Fin (599 / 100)))
          (Number (Fin 55)) []))
       = Inl ProductIdExistsError
   \<and> getProduct (Number (Fin 1)) [] = Inr None"
proof -
  have v: "valid_id (Number (Fin 1))" by (simp add: valid_id_def)
  have e: "find_id (Number (Fin 1)) [] = []" by (simp add: find_id_def)
  obtain P st' where
    s: "addProduct (Number (Fin 1)) (String ''a{3, 24}'') (Number (Fin (599 / 100)))
          (Number (Fin 55)) [] = (Inr P, st')"
    by (simp add: addProduct_def Let_def dflt_def validateId_eq valid_id_def find_id_def
          validateProductName_def match_here_def name_class_def validatePrice_def
          validateStock_def ProductModel_def assign_def save_and_return_def save_new_def)
  show ?thesis
    using v e s addProduct_pizza_then_getProduct [OF v, of "[]" "String ''a{3, 24}''"
      "Number (Fin (599 / 100))" "Number (Fin 55)" P st']
    by simp
qed

text \<open>
  C7. The claim: after a successful addProduct the collection holds one document for
  the product with the fields id, productName, price and stock of the call. The schema
  has no path \<open>productName\<close> (its String path is \<open>product\<close>), so the constructor drops
  the name: the stored document, the only one with that id, has the id, price and
  stock of the call, its \<open>product\<close> path has no value, and the name is stored nowhere.
\<close>

theorem addProduct_stored_document:
  assumes "addProduct i name price stock st = (Inr P, st')"
  shows "st' = st @ [paths P]
       \<and> filter (\<lambda>d. doc_id d = doc_id (paths P)) st' = [paths P]
       \<and> js_of (doc_id (paths P)) = i
       \<and> js_of (doc_price (paths P)) = dflt (Number (Fin 0)) price
       \<and> js_of (doc_stock (paths P)) = dflt (Number (Fin 0)) stock
       \<and> doc_product (paths P) = None
       \<and> productName_own P = Undefined"
  using addProduct_success [OF assms] by auto

theorem addProduct_stored_document_witness:
  "addProduct (Number (Fin 1)) (String ''a{3, 24}'') (Number (Fin (599 / 100))) (Number (Fin 55)) []
     = (Inr \<lparr>paths = \<lparr>doc_id = NumValue (Fin 1), doc_product = None,
                      doc_price = NumValue (Fin (599 / 100)), doc_stock = NumValue (Fin 55)\<rparr>,
             productName_own = Undefined, castError = False\<rparr>,
        [\<lparr>doc_id = NumValue (Fin 1), doc_product = None,
           doc_price = NumValue (Fin (599 / 100)), doc_stock = NumValue (Fin 55)\<rparr>])
   \<and> doc_product (paths \<lparr>paths = \<lparr>doc_id = NumValue (Fin 1), doc_product = None,
                      doc_price = NumValue (Fin (599 / 100)), doc_stock = NumValue (Fin 55)\<rparr>,
             productName_own = Undefined, castError = False\<rparr>) = None"
proof -
  have s: "addProduct (Number (Fin 1)) (String ''a{3, 24}'') (Number (Fin (599 / 100)))
      (Number (Fin 55)) []
     = (Inr \<lparr>paths = \<lparr>doc_id = NumValue (Fin 1), doc_product = None,
                      doc_price = NumValue (Fin (599 / 100)), doc_stock = NumValue (Fin 55)\<rparr>,
             productName_own = Undefined, castError = False\<rparr>,
        [\<lparr>doc_id = NumValue (Fin 1), doc_product = None,
           doc_price = NumValue (Fin (599 / 100)), doc_stock = NumValue (Fin 55)\<rparr>])"
    by (simp add: addProduct_def Let_def dflt_def validateId_eq valid_id_def find_id_def
          validateProductName_def match_here_def name_class_def validatePrice_def
          validateStock_def ProductModel_def assign_def save_and_return_def save_new_def)
  from s addProduct_stored_document [OF s] show ?thesis by blast
qed

section \<open>Updating a product\<close>

lemma truthy_dflt_Null: "truthy (dflt Null v) = truthy v"
  by (simp add: dflt_def)

text \<open>
  C8. The claim: every update call with a valid id that is not in the store fails with
  ProductIdNotExistsError. The code validates the field before it looks the id up, so a
  call whose field is invalid fails with the field's error instead.
\<close>

theorem updateProductPrice_absent_id_invalid_price:
  "updateProductPrice (Number (Fin 99999)) (Number (Fin 0)) [] = (Inl InvalidPriceError, [])
   \<and> find_id (Number (Fin 99999)) [] = []
   \<and> validateId (Number (Fin 99999)) True [] = Inr ()"
  by (simp add: updateProductPrice_def Let_def dflt_def validateId_eq valid_id_def
        validatePrice_def throw_new_simps find_id_def)

text \<open>
  C8, as amended: for an id that passes validateId in mutation mode and is not in the
  store, each update function whose field arguments pass their validation (for
  updateProduct: each truthy one) fails with ProductIdNotExistsError and leaves the
  store as it is; and each update function with a field argument that fails its
  validation fails with the error of that validation (for updateProduct: of the first
  one that fails, in the order name, price, stock), before the lookup, and leaves the
  store as it is.
\<close>

theorem update_absent_id:
  assumes "validateId i True st = Inr ()" and "find_id i st = []"
  shows "(validateProductName (dflt (String []) name) = Inr () \<longrightarrow>
            updateProductName i name st = (Inl ProductIdNotExistsError, st))
       \<and> (validatePrice (dflt (Number (Fin 0)) price) = Inr () \<longrightarrow>
            updateProductPrice i price st = (Inl ProductIdNotExistsError, st))
       \<and> (validateStock (dflt (Number (Fin 0)) stock) = Inr () \<longrightarrow>
            updateProductStock i stock st = (Inl ProductIdNotExistsError, st))
       \<and> ((truthy name \<longrightarrow> validateProductName name = Inr ())
            \<and> (truthy price \<longrightarrow> validatePrice price = Inr ())
            \<and> (truthy stock \<longrightarrow> validateStock stock = Inr ()) \<longrightarrow>
            updateProduct i name price stock st = (Inl ProductIdNotExistsError, st))
       \<and> (\<forall>e. validateProductName (dflt (String []) name) = Inl e \<longrightarrow>
            updateProductName i name st = (Inl e, st))
       \<and> (\<forall>e. validatePrice (dflt (Number (Fin 0)) price) = Inl e \<longrightarrow>
            updateProductPrice i price st = (Inl e, st))
       \<and> (\<forall>e. validateStock (dflt (Number (Fin 0)) stock) = Inl e \<longrightarrow>
            updateProductStock i stock st = (Inl e, st))
       \<and> (\<forall>e. seq (if truthy name then validateProductName name else Inr ())
                (seq (if truthy price then validatePrice price else Inr ())
                     (if truthy stock then validateStock stock else Inr ())) = Inl e \<longrightarrow>
            updateProduct i name price stock st = (Inl e, st))"
proof -
  have n: "updateProductName i name st = (Inl ProductIdNotExistsError, st)"
    if "validateProductName (dflt (String []) name) = Inr ()"
    using assms that
    by (simp add: updateProductName_def Let_def elem0_def throw_new_simps)
  have p: "updateProductPrice i price st = (Inl ProductIdNotExistsError, st)"
    if "validatePrice (dflt (Number (Fin 0)) price) = Inr ()"
    using assms that
    by (simp add: updateProductPrice_def Let_def elem0_def throw_new_simps)
  have s: "updateProductStock i stock st = (Inl ProductIdNotExistsError, st)"
    if "validateStock (dflt (Number (Fin 0)) stock) = Inr ()"
    using assms that
    by (simp add: updateProductStock_def Let_def elem0_def throw_new_simps)
  have d: "truthy v \<Longrightarrow> dflt Null v = v" for v by (auto simp: dflt_def)
  have u: "updateProduct i name price stock st = (Inl ProductIdNotExistsError, st)"
    if "truthy name \<longrightarrow> validateProductName name = Inr ()"
      and "truthy price \<longrightarrow> validatePrice price = Inr ()"
      and "truthy stock \<longrightarrow> validateStock stock = Inr ()"
    using that assms d
    by (simp add: updateProduct_def Let_def elem0_def throw_new_simps truthy_dflt_Null)
  have nf: "updateProductName i name st = (Inl e, st)"
    if "validateProductName (dflt (String []) name) = Inl e" for e
    using assms that by (simp add: updateProductName_def Let_def)
  have pf: "updateProductPrice i price st = (Inl e, st)"
    if "validatePrice (dflt (Number (Fin 0)) price) = Inl e" for e
    using assms that by (simp add: updateProductPrice_def Let_def)
  have sf: "updateProductStock i stock st = (Inl e, st)"
    if "validateStock (dflt (Number (Fin 0)) stock) = Inl e" for e
    using assms that by (simp add: updateProductStock_def Let_def)
  have g: "(if truthy (dflt Null v) then f (dflt Null v) else Inr ())
            = (if truthy v then f v else Inr ())" for v and f :: "jsval \<Rightarrow> error + unit"
    using d [of v] by (simp add: truthy_dflt_Null)
  have uf: "updateProduct i name price stock st = (Inl e, st)"
    if "seq (if truthy name then validateProductName name else Inr ())
          (seq (if truthy price then validatePrice price else Inr ())
               (if truthy stock then validateStock stock else Inr ())) = Inl e" for e
    using assms that by (simp add: updateProduct_def Let_def g)
  from n p s u nf pf sf uf show ?thesis by blast
qed

theorem update_absent_id_witness:
  "validateId (Number (Fin 99999)) True
       [\<lparr>doc_id = NumValue (Fin 1), doc_product = None,
          doc_price = NumValue (Fin (599 / 100)), doc_stock = NumValue (Fin 55)\<rparr>] = Inr ()
   \<and> find_id (Number (Fin 99999))
       [\<lparr>doc_id = NumValue (Fin 1), doc_product = None,
          doc_price = NumValue (Fin (599 / 100)), doc_stock = NumValue (Fin 55)\<rparr>] = []
   \<and> validateProductName (String ''a{3, 24}'') = Inr ()
   \<and> updateProductName (Number (Fin 99999)) (String ''a{3, 24}'')
       [\<lparr>doc_id = NumValue (Fin 1), doc_product = None,
          doc_price = NumValue (Fin (599 / 100)), doc_stock = NumValue (Fin 55)\<rparr>]
       = (Inl ProductIdNotExistsError,
          [\<lparr>doc_id = NumValue (Fin 1), doc_product = None,
             doc_price = NumValue (Fin (599 / 100)), doc_stock = NumValue (Fin 55)\<rparr>])
   \<and> validatePrice (Number (Fin (649 / 100))) = Inr ()
   \<and> updateProductPrice (Number (Fin 99999)) (Number (Fin (649 / 100)))
       [\<lparr>doc_id = NumValue (Fin 1), doc_product = None,
          doc_price = NumValue (Fin (599 / 100)), doc_stock = NumValue (Fin 55)\<rparr>]
       = (Inl ProductIdNotExistsError,
          [\<lparr>doc_id = NumValue (Fin 1), doc_product = None,
             doc_price = NumValue (Fin (599 / 100)), doc_stock = NumValue (Fin 55)\<rparr>])
   \<and> validateStock (Number (Fin 7)) = Inr ()
   \<and> updateProductStock (Number (Fin 99999)) (Number (Fin 7))
       [\<lparr>doc_id = NumValue (Fin 1), doc_product = None,
          doc_price = NumValue (Fin (599 / 100)), doc_stock = NumValue (Fin 55)\<rparr>]
       = (Inl ProductIdNotExistsError,
          [\<lparr>doc_id = NumValue (Fin 1), doc_product = None,
             doc_price = NumValue (Fin (599 / 100)), doc_stock = NumValue (Fin 55)\<rparr>])
   \<and> updateProduct (Number (Fin 99999)) (String ''a{3, 24}'') (Number (Fin (649 / 100)))
       (Number (Fin 7))
       [\<lparr>doc_id = NumValue (Fin 1), doc_product = None,
          doc_price = NumValue (Fin (599 / 100)), doc_stock = NumValue (Fin 55)\<rparr>]
       = (Inl ProductIdNotExistsError,
          [\<lparr>doc_id = NumValue (Fin 1), doc_product = None,
             doc_price = NumValue (Fin (599 / 100)), doc_stock = NumValue (Fin 55)\<rparr>])
   \<and> validateProductName (String ''pizza'') = Inl InvalidProductNameError
   \<and> updateProductName (Number (Fin 99999)) (String ''pizza'')
       [\<lparr>doc_id = NumValue (Fin 1), doc_product = None,
          doc_price = NumValue (Fin (599 / 100)), doc_stock = NumValue (Fin 55)\<rparr>]
       = (Inl InvalidProductNameError,
          [\<lparr>doc_id = NumValue (Fin 1), doc_product = None,
             doc_price = NumValue (Fin (599 / 100)), doc_stock = NumValue (Fin 55)\<rparr>])
   \<and> validatePrice (Number (Fin 10000)) = Inl InvalidPriceError
   \<and> updateProductPrice (Number (Fin 99999)) (Number (Fin 10000))
       [\<lparr>doc_id = NumValue (Fin 1), doc_product = None,
          doc_price = NumValue (Fin (599 / 100)), doc_stock = NumValue (Fin 55)\<rparr>]
       = (Inl InvalidPriceError,
          [\<lparr>doc_id = NumValue (Fin 1), doc_product = None,
             doc_price = NumValue (Fin (599 / 100)), doc_stock = NumValue (Fin 55)\<rparr>])
   \<and> validateStock (Number (Fin 10000)) = Inl TypeError
   \<and> updateProductStock (Number (Fin 99999)) (Number (Fin 10000))
       [\<lparr>doc_id = NumValue (Fin 1), doc_product = None,
          doc_price = NumValue (Fin (599 / 100)), doc_stock = NumValue (Fin 55)\<rparr>]
       = (Inl TypeError,
          [\<lparr>doc_id = NumValue (Fin 1), doc_product = None,
             doc_price = NumValue (Fin (599 / 100)), doc_stock = NumValue (Fin 55)\<rparr>])
   \<and> updateProduct (Number (Fin 99999)) Null (Number (Fin 10000)) (Number (Fin 10000))
       [\<lparr>doc_id = NumValue (Fin 1), doc_product = None,
          doc_price = NumValue (Fin (599 / 100)), doc_stock = NumValue (Fin 55)\<rparr>]
       = (Inl InvalidPriceError,
          [\<lparr>doc_id = NumValue (Fin 1), doc_product = None,
             doc_price = NumValue (Fin (599 / 100)), doc_stock = NumValue (Fin 55)\<rparr>])"
proof -
  let ?st = "[\<lparr>doc_id = NumValue (Fin 1), doc_product = None,
          doc_price = NumValue (Fin (599 / 100)), doc_stock = NumValue (Fin 55)\<rparr>]"
  have a: "validateId (Number (Fin 99999)) True ?st = Inr ()"
    by (simp add: validateId_eq valid_id_def)
  have b: "find_id (Number (Fin 99999)) ?st = []"
    by (simp add: find_id_def)
  have n: "validateProductName (String ''a{3, 24}'') = Inr ()"
    by (simp add: validateProductName_def match_here_def name_class_def)
  have p: "validatePrice (Number (Fin (649 / 100))) = Inr ()"
    by (simp add: validatePrice_def)
  have s: "validateStock (Number (Fin 7)) = Inr ()"
    by (simp add: validateStock_def)
  have nf: "validateProductName (String ''pizza'') = Inl InvalidProductNameError"
    using pizza_no_match by (simp add: validateProductName_def throw_new_simps)
  have pf: "validatePrice (Number (Fin 10000)) = Inl InvalidPriceError"
    by (simp add: validatePrice_def throw_new_simps)
  have sf: "validateStock (Number (Fin 10000)) = Inl TypeError"
    by (simp add: validateStock_def throw_new_simps)
  show ?thesis
    using a b n p s nf pf sf
      update_absent_id [OF a b, of "String ''a{3, 24}''" "Number (Fin (649 / 100))" "Number (Fin 7)"]
      update_absent_id [OF a b, of "String ''pizza''" "Number (Fin 10000)" "Number (Fin 10000)"]
      update_absent_id [OF a b, of Null "Number (Fin 10000)" "Number (Fin 10000)"]
    by (simp add: dflt_def)
qed

section \<open>NaN as a price or a stock\<close>

text \<open>
  An assignment whose cast fails marks the document, and \<open>save\<close> rejects a marked
  document without writing.
\<close>

lemma assign_castError: "castError (assign f v d) = (castError d \<or> castNumber v = None)"
  by (cases "castNumber v") (simp_all add: assign_def)

lemma ProductModel_castError:
  "castError (ProductModel i n p s) = (castNumber i = None \<or> castNumber p = None \<or> castNumber s = None)"
  by (auto simp: ProductModel_def assign_castError)

lemma save_existing_castError: "castError P \<Longrightarrow> save_and_return save_existing P st = (Inl ValidationError, st)"
  by (simp add: save_and_return_def save_existing_def)

lemma save_new_castError: "castError P \<Longrightarrow> save_and_return save_new P st = (Inl ValidationError, st)"
  by (simp add: save_and_return_def save_new_def)

lemma addProduct_NaN:
  assumes "price = Number NaN \<or> stock = Number NaN"
  shows "\<exists>e. addProduct i name price stock st = (Inl e, st)"
proof -
  let ?P = "ProductModel i (dflt (String []) name) (dflt (Number (Fin 0)) price)
              (dflt (Number (Fin 0)) stock)"
  from assms have "castError ?P"
    by (auto simp: ProductModel_castError dflt_def)
  then have "save_and_return save_new ?P st = (Inl ValidationError, st)"
    by (rule save_new_castError)
  then show ?thesis
    by (simp add: addProduct_def Let_def split: sum.splits)
qed

lemma updateProduct_NaN:
  assumes "price = Number NaN \<or> stock = Number NaN"
  shows "\<exists>e. updateProduct i name price stock st = (Inl e, st)"
proof -
  have "castError (assign doc_stock_update (coalesce (dflt Null stock) b)
          (assign doc_price_update (coalesce (dflt Null price) a) Q))" for a b Q
    using assms by (auto simp: assign_castError dflt_def coalesce_def nullish_def)
  then have "save_and_return save_existing (assign doc_stock_update (coalesce (dflt Null stock) b)
          (assign doc_price_update (coalesce (dflt Null price) a) Q)) st = (Inl ValidationError, st)" for a b Q
    by (rule save_existing_castError)
  then show ?thesis
    by (simp add: updateProduct_def Let_def throw_new_simps split: sum.splits option.splits)
qed

lemma updateProductPrice_NaN: "\<exists>e. updateProductPrice i (Number NaN) st = (Inl e, st)"
proof -
  have "save_and_return save_existing (assign doc_price_update (Number NaN) Q) st
          = (Inl ValidationError, st)" for Q
    by (rule save_existing_castError) (simp add: assign_castError)
  then show ?thesis
    by (simp add: updateProductPrice_def Let_def dflt_def throw_new_simps split: sum.splits option.splits)
qed

lemma updateProductStock_NaN: "\<exists>e. updateProductStock i (Number NaN) st = (Inl e, st)"
proof -
  have "save_and_return save_existing (assign doc_stock_update (Number NaN) Q) st
          = (Inl ValidationError, st)" for Q
    by (rule save_existing_castError) (simp add: assign_castError)
  then show ?thesis
    by (simp add: updateProductStock_def Let_def dflt_def throw_new_simps split: sum.splits option.splits)
qed

lemma addProduct_NaN_price_reaches_save:
  assumes "validateId i False st = Inr ()"
    and "validateProductName (dflt (String []) name) = Inr ()"
    and "validateStock (dflt (Number (Fin 0)) stock) = Inr ()"
  shows "addProduct i name (Number NaN) stock st = (Inl ValidationError, st)"
proof -
  have "validatePrice (Number NaN) = Inr ()" by (simp add: validatePrice_def)
  with assms show ?thesis
    by (simp add: addProduct_def Let_def dflt_def save_new_castError ProductModel_castError)
qed

text \<open>
  C10. The claim: NaN passes validatePrice and validateStock, so addProduct and the
  update functions store a product with a NaN price or stock. The validators do let
  NaN through, but the cast of the Number path fails on NaN and \<open>save\<close> rejects the
  document: nothing is stored.
\<close>

theorem addProduct_NaN_price_not_stored:
  "addProduct (Number (Fin 1)) (String ''a{3, 24}'') (Number NaN) (Number (Fin 55)) []
     = (Inl ValidationError, [])
   \<and> addProduct (Number (Fin 1)) (String ''a{3, 24}'') (Number (Fin (599 / 100))) (Number NaN) []
     = (Inl ValidationError, [])"
  by (simp add: addProduct_def Let_def dflt_def validateId_eq valid_id_def find_id_def
        validateProductName_def match_here_def name_class_def validatePrice_def
        validateStock_def ProductModel_def assign_def save_and_return_def save_new_def)

text \<open>
  C10, as amended: validatePrice and validateStock raise nothing for NaN, so addProduct
  called with a NaN price and otherwise valid arguments gets past all four validators;
  the save then fails with a ValidationError. Every call of addProduct, updateProduct,
  updateProductPrice or updateProductStock with a NaN price or stock fails and leaves
  the store as it is.
\<close>

theorem NaN_passes_validation_and_fails_the_save:
  "validatePrice (Number NaN) = Inr ()
   \<and> validateStock (Number NaN) = Inr ()
   \<and> (validateId i False st = Inr () \<and> validateProductName (dflt (String []) name) = Inr ()
        \<and> validateStock (dflt (Number (Fin 0)) stock) = Inr ()
      \<longrightarrow> addProduct i name (Number NaN) stock st = (Inl ValidationError, st))
   \<and> (price = Number NaN \<or> stock = Number NaN
      \<longrightarrow> (\<exists>e. addProduct i name price stock st = (Inl e, st))
          \<and> (\<exists>e. updateProduct i name price stock st = (Inl e, st)))
   \<and> (\<exists>e. updateProductPrice i (Number NaN) st = (Inl e, st))
   \<and> (\<exists>e. updateProductStock i (Number NaN) st = (Inl e, st))"
proof -
  have "validatePrice (Number NaN) = Inr ()" by (simp add: validatePrice_def)
  moreover have "validateStock (Number NaN) = Inr ()" by (simp add: validateStock_def)
  ultimately show ?thesis
    using addProduct_NaN_price_reaches_save [of i st name stock]
      addProduct_NaN [of price stock i name st] updateProduct_NaN [of price stock i name st]
      updateProductPrice_NaN [of i st] updateProductStock_NaN [of i st]
    by blast
qed

theorem NaN_passes_validation_and_fails_the_save_witness:
  "validateId (Number (Fin 1)) False [] = Inr ()
   \<and> validateProductName (String ''a{3, 24}'') = Inr ()
   \<and> validateStock (Number (Fin 55)) = Inr ()
   \<and> addProduct (Number (Fin 1)) (String ''a{3, 24}'') (Number NaN) (Number (Fin 55)) []
       = (Inl ValidationError, [])
   \<and> (\<exists>e. updateProduct (Number (Fin 1)) Null (Number NaN) Null [] = (Inl e, []))"
proof -
  have a: "validateId (Number (Fin 1)) False [] = Inr ()"
    by (simp add: validateId_eq valid_id_def find_id_def)
  have n: "validateProductName (String ''a{3, 24}'') = Inr ()"
    by (simp add: validateProductName_def match_here_def name_class_def)
  have s: "validateStock (Number (Fin 55)) = Inr ()"
    by (simp add: validateStock_def)
  show ?thesis
    using a n s
      NaN_passes_validation_and_fails_the_save [of "Number (Fin 1)" "[]" "String ''a{3, 24}''"
        "Number (Fin 55)" "Number NaN"]
      NaN_passes_validation_and_fails_the_save [of "Number (Fin 1)" "[]" Null Null "Number NaN"]
    by (simp add: dflt_def)
qed

section \<open>The fields updateProduct writes\<close>

lemma assign_ok:
  "\<not> castError (assign f v d) \<Longrightarrow>
     \<exists>c. castNumber v = Some c \<and> assign f v d = d\<lparr>paths := f (\<lambda>_. c) (paths d)\<rparr>"
  by (cases "castNumber v") (simp_all add: assign_def)

lemma castNumber_js_of: "castNumber (js_of v) = Some c \<Longrightarrow> c = v"
  by (cases v) (auto split: if_splits)

lemma save_existing_Inr:
  "save_and_return save_existing Q st = (Inr P, st') \<Longrightarrow>
     P = Q \<and> \<not> castError Q \<and> st' = replace_first (doc_id (paths Q)) (paths Q) st"
  by (auto simp: save_and_return_def save_existing_def split: if_splits)

lemma elem0_find_id_Some:
  assumes "elem0 (find_id i st) = Some d"
  shows "\<exists>n. i = Number n \<and> doc_id d = NumValue n \<and> d \<in> set st"
proof -
  from assms obtain xs where x: "find_id i st = d # xs"
    by (cases "find_id i st") (simp_all add: elem0_def)
  then obtain n where i: "i = Number n"
    by (cases i) (simp_all add: find_id_def)
  from x have "d \<in> set (find_id i st)" by simp
  with i show ?thesis by (auto simp: find_id_Number)
qed

lemma elem0_filter_replace_first:
  "filter (\<lambda>x. doc_id x = k) st \<noteq> [] \<Longrightarrow> doc_id d = k \<Longrightarrow>
     elem0 (filter (\<lambda>x. doc_id x = k) (replace_first k d st)) = Some d"
  by (induction st) (auto simp: elem0_def)

lemma updateProduct_Inr:
  assumes "updateProduct i name price stock st = (Inr P, st')"
  shows "\<exists>d cp cs. elem0 (find_id i st) = Some d
     \<and> castNumber (coalesce (dflt Null price) (js_of (doc_price d))) = Some cp
     \<and> castNumber (coalesce (dflt Null stock) (js_of (doc_stock d))) = Some cs
     \<and> (truthy price \<longrightarrow> validatePrice price = Inr ())
     \<and> (truthy stock \<longrightarrow> validateStock stock = Inr ())
     \<and> paths P = d\<lparr>doc_price := cp, doc_stock := cs\<rparr>
     \<and> st' = replace_first (doc_id d) (paths P) st"
proof -
  let ?n = "dflt Null name" and ?p = "dflt Null price" and ?s = "dflt Null stock"
  from assms obtain d where d: "elem0 (find_id i st) = Some d"
    and v: "seq (validateId i True st)
            (seq (if truthy ?n then validateProductName ?n else Inr ())
            (seq (if truthy ?p then validatePrice ?p else Inr ())
                 (if truthy ?s then validateStock ?s else Inr ()))) = Inr ()"
    by (auto simp: updateProduct_def Let_def throw_new_simps split: sum.splits option.splits)
  define P1 where "P1 = (hydrate d)\<lparr>productName_own := coalesce ?n (productName_own (hydrate d))\<rparr>"
  define P2 where "P2 = assign doc_price_update (coalesce ?p (js_of (doc_price (paths P1)))) P1"
  define P3 where "P3 = assign doc_stock_update (coalesce ?s (js_of (doc_stock (paths P2)))) P2"
  from assms d v have "save_and_return save_existing P3 st = (Inr P, st')"
    by (simp add: updateProduct_def Let_def P1_def P2_def P3_def)
  from save_existing_Inr [OF this]
  have P: "P = P3" and ok: "\<not> castError P3"
    and st': "st' = replace_first (doc_id (paths P3)) (paths P3) st"
    by simp_all
  from ok obtain cs where cs: "castNumber (coalesce ?s (js_of (doc_stock (paths P2)))) = Some cs"
    and P3: "P3 = P2\<lparr>paths := doc_stock_update (\<lambda>_. cs) (paths P2)\<rparr>"
    unfolding P3_def using assign_ok by blast
  from ok P3 have "\<not> castError P2" by simp
  then obtain cp where cp: "castNumber (coalesce ?p (js_of (doc_price (paths P1)))) = Some cp"
    and P2: "P2 = P1\<lparr>paths := doc_price_update (\<lambda>_. cp) (paths P1)\<rparr>"
    unfolding P2_def using assign_ok by blast
  have p1: "paths P1 = d" by (simp add: P1_def hydrate_def)
  have tp: "truthy price \<longrightarrow> validatePrice price = Inr ()"
    and ts: "truthy stock \<longrightarrow> validateStock stock = Inr ()"
    using v by (auto simp: seq_Inr_iff dflt_def split: if_splits)
  from cp cs P2 P3 p1 P st' tp ts d show ?thesis
    by simp
qed

text \<open>
  C3. The claim: a falsy value passed to updateProduct, such as stock 0, is treated as
  not supplied, neither validated nor applied, so the stored field is unchanged. The
  code skips the validation of a falsy argument (\<open>x && this.validate(x)\<close>) but assigns
  every argument that is not null or undefined (\<open>x ?? Product.x\<close>): a stock of 0 is
  stored.
\<close>

theorem updateProduct_stock_zero_is_applied:
  "updateProduct (Number (Fin 1)) Null Null (Number (Fin 0))
     [\<lparr>doc_id = NumValue (Fin 1), doc_product = None,
        doc_price = NumValue (Fin (599 / 100)), doc_stock = NumValue (Fin 55)\<rparr>]
   = (Inr \<lparr>paths = \<lparr>doc_id = NumValue (Fin 1), doc_product = None,
                    doc_price = NumValue (Fin (599 / 100)), doc_stock = NumValue (Fin 0)\<rparr>,
           productName_own = Undefined, castError = False\<rparr>,
      [\<lparr>doc_id = NumValue (Fin 1), doc_product = None,
         doc_price = NumValue (Fin (599 / 100)), doc_stock = NumValue (Fin 0)\<rparr>])"
  by (simp add: updateProduct_def Let_def dflt_def validateId_eq valid_id_def find_id_def
        elem0_def hydrate_def coalesce_def nullish_def assign_def save_and_return_def
        save_existing_def)

text \<open>
  C3, as amended: when updateProduct succeeds, the document found for the id takes the
  new values and every other document is as before; a price or stock argument that is
  null or undefined leaves the stored field unchanged, and a number passed as price or
  stock is stored as it is, 0 included; the id and the \<open>product\<close> path are unchanged.
\<close>

theorem updateProduct_fields:
  assumes "updateProduct i name price stock st = (Inr P, st')"
  shows "\<exists>d. elem0 (find_id i st) = Some d
     \<and> st' = replace_first (doc_id d) (paths P) st
     \<and> elem0 (find_id i st') = Some (paths P)
     \<and> doc_id (paths P) = doc_id d
     \<and> doc_product (paths P) = doc_product d
     \<and> (nullish price \<longrightarrow> doc_price (paths P) = doc_price d)
     \<and> (nullish stock \<longrightarrow> doc_stock (paths P) = doc_stock d)
     \<and> (\<forall>n. price = Number n \<longrightarrow> doc_price (paths P) = NumValue n)
     \<and> (\<forall>n. stock = Number n \<longrightarrow> doc_stock (paths P) = NumValue n)"
proof -
  from updateProduct_Inr [OF assms] obtain d cp cs where
    d: "elem0 (find_id i st) = Some d"
    and cp: "castNumber (coalesce (dflt Null price) (js_of (doc_price d))) = Some cp"
    and cs: "castNumber (coalesce (dflt Null stock) (js_of (doc_stock d))) = Some cs"
    and P: "paths P = d\<lparr>doc_price := cp, doc_stock := cs\<rparr>"
    and st': "st' = replace_first (doc_id d) (paths P) st"
    by blast
  from elem0_find_id_Some [OF d] obtain n where i: "i = Number n" and dn: "doc_id d = NumValue n"
    by blast
  from d i have "filter (\<lambda>x. doc_id x = NumValue n) st \<noteq> []"
    by (auto simp: find_id_Number elem0_def)
  with P dn have "elem0 (filter (\<lambda>x. doc_id x = NumValue n) (replace_first (NumValue n) (paths P) st))
      = Some (paths P)"
    by (intro elem0_filter_replace_first) simp_all
  with st' dn i have f: "elem0 (find_id i st') = Some (paths P)"
    by (simp add: find_id_Number)
  have np: "nullish price \<Longrightarrow> cp = doc_price d"
    using cp castNumber_js_of by (auto simp: coalesce_def nullish_def dflt_def)
  have ns: "nullish stock \<Longrightarrow> cs = doc_stock d"
    using cs castNumber_js_of by (auto simp: coalesce_def nullish_def dflt_def)
  have vp: "price = Number m \<Longrightarrow> cp = NumValue m" for m
    using cp by (auto simp: coalesce_def nullish_def dflt_def split: if_splits)
  have vs: "stock = Number m \<Longrightarrow> cs = NumValue m" for m
    using cs by (auto simp: coalesce_def nullish_def dflt_def split: if_splits)
  from d st' f P np ns vp vs show ?thesis by auto
qed

theorem updateProduct_fields_witness:
  "updateProduct (Number (Fin 1)) Null Null (Number (Fin 0))
     [\<lparr>doc_id = NumValue (Fin 1), doc_product = None,
        doc_price = NumValue (Fin (599 / 100)), doc_stock = NumValue (Fin 55)\<rparr>]
   = (Inr \<lparr>paths = \<lparr>doc_id = NumValue (Fin 1), doc_product = None,
                    doc_price = NumValue (Fin (599 / 100)), doc_stock = NumValue (Fin 0)\<rparr>,
           productName_own = Undefined, castError = False\<rparr>,
      [\<lparr>doc_id = NumValue (Fin 1), doc_product = None,
         doc_price = NumValue (Fin (599 / 100)), doc_stock = NumValue (Fin 0)\<rparr>])
   \<and> nullish Null
   \<and> doc_stock (paths \<lparr>paths = \<lparr>doc_id = NumValue (Fin 1), doc_product = None,
                    doc_price = NumValue (Fin (599 / 100)), doc_stock = NumValue (Fin 0)\<rparr>,
           productName_own = Undefined, castError = False\<rparr>) = NumValue (Fin 0)"
proof -
  have s: "updateProduct (Number (Fin 1)) Null Null (Number (Fin 0))
     [\<lparr>doc_id = NumValue (Fin 1), doc_product = None,
        doc_price = NumValue (Fin (599 / 100)), doc_stock = NumValue (Fin 55)\<rparr>]
   = (Inr \<lparr>paths = \<lparr>doc_id = NumValue (Fin 1), doc_product = None,
                    doc_price = NumValue (Fin (599 / 100)), doc_stock = NumValue (Fin 0)\<rparr>,
           productName_own = Undefined, castError = False\<rparr>,
      [\<lparr>doc_id = NumValue (Fin 1), doc_product = None,
         doc_price = NumValue (Fin (599 / 100)), doc_stock = NumValue (Fin 0)\<rparr>])"
    by (simp add: updateProduct_def Let_def dflt_def validateId_eq valid_id_def find_id_def
        elem0_def hydrate_def coalesce_def nullish_def assign_def save_and_return_def
        save_existing_def)
  have n: "nullish Null" by (simp add: nullish_def)
  from s n updateProduct_fields [OF s] show ?thesis by blast
qed

section \<open>The invariant of the store\<close>

















end
